theory Spec2Isabelle
  imports Main "HOL-Library.Word"
begin

section \<open>Atomic reference counting and compare-and-swap of utils.h\<close>

text \<open>
  The header \<^verbatim>\<open>src/libstrongswan/utils/utils.h\<close> defines the reference counting
  primitives \<^verbatim>\<open>ref_get\<close>, \<^verbatim>\<open>ref_put\<close>, \<^verbatim>\<open>ref_cur\<close> and the compare-and-swap
  primitives \<^verbatim>\<open>cas_bool\<close>, \<^verbatim>\<open>cas_ptr\<close> as macros over compiler built-ins, once over
  the \<^verbatim>\<open>__atomic\<close> family (GCC 4.7 and newer) and once over the \<^verbatim>\<open>__sync\<close> family.

  This theory embeds the macros as functions on an explicit memory and proves their
  value-level behaviour as seen by one thread: what each call returns and what it leaves
  in memory. Interleavings of several threads and the memory orderings are outside the
  model; the ordering constants are carried along as arguments, as the macros pass them.
\<close>

subsection \<open>Memory and the counter type\<close>

text \<open>
  Every primitive takes a pointer. Memory is a function from addresses \<open>'p\<close> to the
  values \<open>'v\<close> stored there; a call returns its result together with the memory it leaves.
\<close>

type_synonym ('p, 'v) mem = "'p \<Rightarrow> 'v"

text \<open>
  \<^verbatim>\<open>typedef u_int refcount_t;\<close> An unsigned integer of the platform's \<^verbatim>\<open>unsigned int\<close>
  width \<open>LENGTH('w)\<close>; arithmetic on it wraps modulo \<open>2 ^ LENGTH('w)\<close>.
\<close>

type_synonym 'w refcount_t = "'w word"

text \<open>The memory order constants \<^verbatim>\<open>__ATOMIC_*\<close> of the compiler.\<close>

datatype memorder =
  ATOMIC_RELAXED | ATOMIC_CONSUME | ATOMIC_ACQUIRE | ATOMIC_RELEASE | ATOMIC_ACQ_REL
  | ATOMIC_SEQ_CST

subsection \<open>The \<^verbatim>\<open>__atomic\<close> built-ins\<close>

text \<open>
  The built-ins are the compiler's, not the header's. Their definitions follow the GCC
  manual: \<^verbatim>\<open>__atomic_add_fetch\<close> and \<^verbatim>\<open>__atomic_sub_fetch\<close> perform
  \<^verbatim>\<open>*ptr op= val\<close> and return the result of the operation; \<^verbatim>\<open>__atomic_load_n\<close>
  returns the contents of \<^verbatim>\<open>*ptr\<close>.
\<close>

definition atomic_add_fetch ::
  "('p, 'w::len word) mem \<Rightarrow> 'p \<Rightarrow> 'w word \<Rightarrow> memorder \<Rightarrow> 'w word \<times> ('p, 'w word) mem" where
  "atomic_add_fetch m ptr val memorder = (let r = m ptr + val in (r, m(ptr := r)))"

definition atomic_sub_fetch ::
  "('p, 'w::len word) mem \<Rightarrow> 'p \<Rightarrow> 'w word \<Rightarrow> memorder \<Rightarrow> 'w word \<times> ('p, 'w word) mem" where
  "atomic_sub_fetch m ptr val memorder = (let r = m ptr - val in (r, m(ptr := r)))"

definition atomic_load_n :: "('p, 'v) mem \<Rightarrow> 'p \<Rightarrow> memorder \<Rightarrow> 'v \<times> ('p, 'v) mem" where
  "atomic_load_n m ptr memorder = (m ptr, m)"

text \<open>
  \<^verbatim>\<open>__atomic_compare_exchange_n (ptr, expected, desired, weak, success, failure)\<close>
  compares the contents of \<^verbatim>\<open>*ptr\<close> with the contents of \<^verbatim>\<open>*expected\<close>. If equal, it
  writes \<^verbatim>\<open>desired\<close> into \<^verbatim>\<open>*ptr\<close> and returns true; otherwise it writes the current
  contents of \<^verbatim>\<open>*ptr\<close> into \<^verbatim>\<open>*expected\<close> and returns false. The second component of
  the result is the content of \<^verbatim>\<open>*expected\<close> afterwards. The header only calls the
  strong form (\<^verbatim>\<open>weak\<close> is \<^verbatim>\<open>FALSE\<close>), which never fails spuriously; that form is the
  one defined here.
\<close>

definition atomic_compare_exchange_n ::
  "('p, 'v) mem \<Rightarrow> 'p \<Rightarrow> 'v \<Rightarrow> 'v \<Rightarrow> bool \<Rightarrow> memorder \<Rightarrow> memorder
    \<Rightarrow> (bool \<times> 'v) \<times> ('p, 'v) mem" where
  "atomic_compare_exchange_n m ptr expected desired weak success_memorder failure_memorder =
     (if m ptr = expected then ((True, expected), m(ptr := desired))
      else ((False, m ptr), m))"

subsection \<open>The C values the compare-and-swap macros are called with\<close>

text \<open>
  A C \<^verbatim>\<open>bool\<close> occupies one byte, holding 1 for true and 0 for false. A location of
  type \<^verbatim>\<open>bool\<close> is a location of the byte memory.
\<close>

type_synonym byte = "8 word"

definition bool_byte :: "bool \<Rightarrow> byte" where
  "bool_byte b = (if b then 1 else 0)"

text \<open>
  The macros are untyped: \<^verbatim>\<open>oldval\<close> and \<^verbatim>\<open>newval\<close> are whatever expressions the
  caller writes. For \<^verbatim>\<open>cas_bool\<close> that is an expression of type \<^verbatim>\<open>bool\<close> (a
  variable, say) or of type \<^verbatim>\<open>int\<close> (a literal, a comparison, \<^verbatim>\<open>TRUE\<close> and
  \<^verbatim>\<open>FALSE\<close> where they expand to integer constants). An argument is the type of the
  expression together with its value; \<^verbatim>\<open>int\<close> has 32 bits.
\<close>

type_synonym c_int = "32 word"

datatype bool_arg = AsBool bool | AsInt c_int

text \<open>Conversion to \<^verbatim>\<open>bool\<close> by value: false if the value compares equal to 0, else true.\<close>

fun to_bool :: "bool_arg \<Rightarrow> bool" where
  "to_bool (AsBool b) = b"
| "to_bool (AsInt i) = (i \<noteq> 0)"

text \<open>
  The byte at the lowest address of an object that holds the argument in its own type:
  the only byte of a \<^verbatim>\<open>bool\<close>, the least significant byte of an \<^verbatim>\<open>int\<close> on a
  little-endian machine and the most significant one on a big-endian machine.
\<close>

datatype endian = LITTLE_ENDIAN | BIG_ENDIAN

fun first_byte :: "endian \<Rightarrow> bool_arg \<Rightarrow> byte" where
  "first_byte e (AsBool b) = bool_byte b"
| "first_byte LITTLE_ENDIAN (AsInt i) = ucast i"
| "first_byte BIG_ENDIAN (AsInt i) = ucast (drop_bit 24 i)"

subsection \<open>The macros over \<^verbatim>\<open>__atomic\<close> (HAVE_GCC_ATOMIC_OPERATIONS)\<close>

text \<open>C's \<^verbatim>\<open>!e\<close> on an unsigned value: true exactly when \<^verbatim>\<open>e\<close> compares equal to 0.\<close>

definition lnot :: "'w::len word \<Rightarrow> bool" where
  "lnot e = (e = 0)"

text \<open>\<^verbatim>\<open>#define ref_get(ref) __atomic_add_fetch(ref, 1, __ATOMIC_RELAXED)\<close>\<close>

definition ref_get ::
  "('p, 'w::len refcount_t) mem \<Rightarrow> 'p \<Rightarrow> 'w refcount_t \<times> ('p, 'w refcount_t) mem" where
  "ref_get m ref = atomic_add_fetch m ref 1 ATOMIC_RELAXED"

text \<open>\<^verbatim>\<open>#define ref_put(ref) (!__atomic_sub_fetch(ref, 1, __ATOMIC_ACQ_REL))\<close>\<close>

definition ref_put ::
  "('p, 'w::len refcount_t) mem \<Rightarrow> 'p \<Rightarrow> bool \<times> ('p, 'w refcount_t) mem" where
  "ref_put m ref = (let (r, m') = atomic_sub_fetch m ref 1 ATOMIC_ACQ_REL in (lnot r, m'))"

text \<open>\<^verbatim>\<open>#define ref_cur(ref) __atomic_load_n(ref, __ATOMIC_RELAXED)\<close>\<close>

definition ref_cur ::
  "('p, 'w::len refcount_t) mem \<Rightarrow> 'p \<Rightarrow> 'w refcount_t \<times> ('p, 'w refcount_t) mem" where
  "ref_cur m ref = atomic_load_n m ref ATOMIC_RELAXED"

text \<open>
  \<^verbatim>\<open>#define _cas_impl(ptr, oldval, newval) ({ typeof(oldval) _old = oldval;
     __atomic_compare_exchange_n(ptr, &_old, newval, FALSE,
                                 __ATOMIC_SEQ_CST, __ATOMIC_RELAXED); })\<close>
  The local \<^verbatim>\<open>_old\<close> has the type of the expression \<^verbatim>\<open>oldval\<close>, \<open>'t\<close>, not the
  type \<open>'v\<close> of \<^verbatim>\<open>*ptr\<close>. The built-in is handed its address and reads an object of
  the size of \<^verbatim>\<open>*ptr\<close> there, with no conversion: \<open>read_old\<close> is what that read
  yields. \<^verbatim>\<open>newval\<close> is passed by value and so converted to the type of \<^verbatim>\<open>*ptr\<close>,
  by \<open>conv_new\<close>. What the built-in writes back into \<^verbatim>\<open>_old\<close> on failure is dropped
  with the local; the value of the statement expression is the built-in's boolean.
\<close>

definition cas_impl ::
  "('t \<Rightarrow> 'v) \<Rightarrow> ('n \<Rightarrow> 'v) \<Rightarrow> ('p, 'v) mem \<Rightarrow> 'p \<Rightarrow> 't \<Rightarrow> 'n \<Rightarrow> bool \<times> ('p, 'v) mem" where
  "cas_impl read_old conv_new m ptr oldval newval =
     (let old = oldval;
          ((b, old'), m') =
             atomic_compare_exchange_n m ptr (read_old old) (conv_new newval) False
               ATOMIC_SEQ_CST ATOMIC_RELAXED
      in (b, m'))"

text \<open>
  \<^verbatim>\<open>#define cas_bool(ptr, oldval, newval) _cas_impl(ptr, oldval, newval)\<close>
  \<^verbatim>\<open>ptr\<close> is a \<^verbatim>\<open>bool *\<close>, so the built-in reads one byte of \<^verbatim>\<open>_old\<close>, the one
  at its lowest address, and converts \<^verbatim>\<open>newval\<close> to \<^verbatim>\<open>bool\<close>.
\<close>

definition cas_bool ::
  "endian \<Rightarrow> ('p, byte) mem \<Rightarrow> 'p \<Rightarrow> bool_arg \<Rightarrow> bool_arg \<Rightarrow> bool \<times> ('p, byte) mem" where
  "cas_bool e m ptr oldval newval =
     cas_impl (first_byte e) (\<lambda>n. bool_byte (to_bool n)) m ptr oldval newval"

text \<open>
  \<^verbatim>\<open>#define cas_ptr(ptr, oldval, newval) _cas_impl(ptr, oldval, newval)\<close>
  \<^verbatim>\<open>ptr\<close> is a \<^verbatim>\<open>void **\<close> and the arguments are pointer expressions, values of
  some address type \<open>'a\<close>. Object pointers of every type have the size and the
  representation of a \<^verbatim>\<open>void *\<close>, so reading \<^verbatim>\<open>_old\<close> as one gives \<^verbatim>\<open>oldval\<close>.
\<close>

definition cas_ptr :: "('p, 'a) mem \<Rightarrow> 'p \<Rightarrow> 'a \<Rightarrow> 'a \<Rightarrow> bool \<times> ('p, 'a) mem" where
  "cas_ptr m ptr oldval newval = cas_impl (\<lambda>x. x) (\<lambda>x. x) m ptr oldval newval"

subsection \<open>The \<^verbatim>\<open>__sync\<close> built-ins and the macros over them (HAVE_GCC_SYNC_OPERATIONS)\<close>

text \<open>
  Again after the GCC manual: \<^verbatim>\<open>__sync_add_and_fetch\<close> and \<^verbatim>\<open>__sync_sub_and_fetch\<close>
  perform the operation and return the new value; \<^verbatim>\<open>__sync_fetch_and_add\<close> performs it
  and returns the value that was in memory before; \<^verbatim>\<open>__sync_bool_compare_and_swap\<close>
  writes \<^verbatim>\<open>newval\<close> if the current value of \<^verbatim>\<open>*ptr\<close> is \<^verbatim>\<open>oldval\<close> and returns
  whether it did. Both \<^verbatim>\<open>oldval\<close> and \<^verbatim>\<open>newval\<close> are passed by value, so a caller's
  expressions are converted to the type of \<^verbatim>\<open>*ptr\<close> at the call.
\<close>

definition sync_add_and_fetch ::
  "('p, 'w::len word) mem \<Rightarrow> 'p \<Rightarrow> 'w word \<Rightarrow> 'w word \<times> ('p, 'w word) mem" where
  "sync_add_and_fetch m ptr val = (let r = m ptr + val in (r, m(ptr := r)))"

definition sync_sub_and_fetch ::
  "('p, 'w::len word) mem \<Rightarrow> 'p \<Rightarrow> 'w word \<Rightarrow> 'w word \<times> ('p, 'w word) mem" where
  "sync_sub_and_fetch m ptr val = (let r = m ptr - val in (r, m(ptr := r)))"

definition sync_fetch_and_add ::
  "('p, 'w::len word) mem \<Rightarrow> 'p \<Rightarrow> 'w word \<Rightarrow> 'w word \<times> ('p, 'w word) mem" where
  "sync_fetch_and_add m ptr val = (let tmp = m ptr in (tmp, m(ptr := tmp + val)))"

definition sync_bool_compare_and_swap ::
  "('p, 'v) mem \<Rightarrow> 'p \<Rightarrow> 'v \<Rightarrow> 'v \<Rightarrow> bool \<times> ('p, 'v) mem" where
  "sync_bool_compare_and_swap m ptr oldval newval =
     (if m ptr = oldval then (True, m(ptr := newval)) else (False, m))"

text \<open>\<^verbatim>\<open>#define ref_get(ref) __sync_add_and_fetch(ref, 1)\<close>\<close>

definition sync_ref_get ::
  "('p, 'w::len refcount_t) mem \<Rightarrow> 'p \<Rightarrow> 'w refcount_t \<times> ('p, 'w refcount_t) mem" where
  "sync_ref_get m ref = sync_add_and_fetch m ref 1"

text \<open>\<^verbatim>\<open>#define ref_put(ref) (!__sync_sub_and_fetch(ref, 1))\<close>\<close>

definition sync_ref_put ::
  "('p, 'w::len refcount_t) mem \<Rightarrow> 'p \<Rightarrow> bool \<times> ('p, 'w refcount_t) mem" where
  "sync_ref_put m ref = (let (r, m') = sync_sub_and_fetch m ref 1 in (lnot r, m'))"

text \<open>\<^verbatim>\<open>#define ref_cur(ref) __sync_fetch_and_add(ref, 0)\<close>\<close>

definition sync_ref_cur ::
  "('p, 'w::len refcount_t) mem \<Rightarrow> 'p \<Rightarrow> 'w refcount_t \<times> ('p, 'w refcount_t) mem" where
  "sync_ref_cur m ref = sync_fetch_and_add m ref 0"

text \<open>
  \<^verbatim>\<open>#define cas_bool(ptr, oldval, newval)
                    (__sync_bool_compare_and_swap(ptr, oldval, newval))\<close>
\<close>

definition sync_cas_bool ::
  "('p, byte) mem \<Rightarrow> 'p \<Rightarrow> bool_arg \<Rightarrow> bool_arg \<Rightarrow> bool \<times> ('p, byte) mem" where
  "sync_cas_bool m ptr oldval newval =
     sync_bool_compare_and_swap m ptr (bool_byte (to_bool oldval)) (bool_byte (to_bool newval))"

text \<open>
  \<^verbatim>\<open>#define cas_ptr(ptr, oldval, newval)
                    (__sync_bool_compare_and_swap(ptr, oldval, newval))\<close>
\<close>

definition sync_cas_ptr :: "('p, 'a) mem \<Rightarrow> 'p \<Rightarrow> 'a \<Rightarrow> 'a \<Rightarrow> bool \<times> ('p, 'a) mem" where
  "sync_cas_ptr m ptr oldval newval = sync_bool_compare_and_swap m ptr oldval newval"

subsection \<open>Construction and single-threaded traces\<close>

text \<open>
  Modelled from the spec: the constructors of the reference counted objects are not in
  this header. The spec has \<^verbatim>\<open>new_counter() -> RefCounter\<close> initialized to 1: the
  creator holds the first reference.
\<close>

definition new_counter :: "('p, 'w::len refcount_t) mem \<Rightarrow> 'p \<Rightarrow> ('p, 'w refcount_t) mem" where
  "new_counter m ref = m(ref := 1)"

text \<open>A memory for the examples: every location holds 0.\<close>

definition fresh_mem :: "(nat, 'w::len refcount_t) mem" where
  "fresh_mem = (\<lambda>_. 0)"

text \<open>
  One thread's calls on a counter, in program order. A call returns a counter value
  (\<^verbatim>\<open>ref_get\<close>, \<^verbatim>\<open>ref_cur\<close>) or a boolean (\<^verbatim>\<open>ref_put\<close>).
\<close>

datatype call = Get | Put | Cur

datatype 'v result = RCount 'v | RBool bool

fun exec ::
  "('p, 'w::len refcount_t) mem \<Rightarrow> 'p \<Rightarrow> call
    \<Rightarrow> 'w refcount_t result \<times> ('p, 'w refcount_t) mem" where
  "exec m ref Get = (let (r, m') = ref_get m ref in (RCount r, m'))"
| "exec m ref Put = (let (b, m') = ref_put m ref in (RBool b, m'))"
| "exec m ref Cur = (let (r, m') = ref_cur m ref in (RCount r, m'))"

text \<open>The memory after a sequence of calls.\<close>

fun after ::
  "('p, 'w::len refcount_t) mem \<Rightarrow> 'p \<Rightarrow> call list \<Rightarrow> ('p, 'w refcount_t) mem" where
  "after m ref [] = m"
| "after m ref (c # cs) = after (snd (exec m ref c)) ref cs"

text \<open>The events of a sequence of calls: each call, what it returned and the memory it left.\<close>

type_synonym ('p, 'w) event = "call \<times> 'w refcount_t result \<times> ('p, 'w refcount_t) mem"

fun run ::
  "('p, 'w::len refcount_t) mem \<Rightarrow> 'p \<Rightarrow> call list \<Rightarrow> ('p, 'w) event list" where
  "run m ref [] = []"
| "run m ref (c # cs) = (let (r, m') = exec m ref c in (c, r, m') # run m' ref cs)"

text \<open>A \<^verbatim>\<open>ref_put\<close> that returned true: its caller has to destroy the object.\<close>

fun is_last :: "('p, 'w::len) event \<Rightarrow> bool" where
  "is_last (c, r, m') = (c = Put \<and> r = RBool True)"

text \<open>A call that left the counter at 0.\<close>

fun reaches_zero :: "'p \<Rightarrow> ('p, 'w::len) event \<Rightarrow> bool" where
  "reaches_zero ref (c, r, m') = (m' ref = 0)"

text \<open>
  Every \<^verbatim>\<open>ref_put\<close> is preceded by at least as many holders as releases: \<open>h\<close> counts
  the holders so far (the creator and every \<^verbatim>\<open>ref_get\<close>), \<open>r\<close> the releases so far,
  and a \<^verbatim>\<open>ref_put\<close>, itself one more release, needs \<open>r + 1 \<le> h\<close>.
\<close>

fun puts_covered :: "nat \<Rightarrow> nat \<Rightarrow> call list \<Rightarrow> bool" where
  "puts_covered h r [] = True"
| "puts_covered h r (Get # cs) = puts_covered (h + 1) r cs"
| "puts_covered h r (Put # cs) = (r + 1 \<le> h \<and> puts_covered h (r + 1) cs)"
| "puts_covered h r (Cur # cs) = puts_covered h r cs"

text \<open>
  The discipline of the object lifecycle: every call is made through a reference that is
  still held. \<open>h\<close> is the number of references held before the call; no call is made
  once it is 0, and a \<^verbatim>\<open>ref_get\<close> keeps it below \<open>lim\<close>, the number of values of
  the counter type.
\<close>

fun held :: "nat \<Rightarrow> nat \<Rightarrow> call list \<Rightarrow> bool" where
  "held lim h [] = True"
| "held lim h (Get # cs) = (0 < h \<and> h + 1 < lim \<and> held lim (h + 1) cs)"
| "held lim h (Put # cs) = (0 < h \<and> held lim (h - 1) cs)"
| "held lim h (Cur # cs) = (0 < h \<and> held lim h cs)"


section \<open>Facts shared by the proofs\<close>

text \<open>What one call does, with the macro and its built-in unfolded.\<close>

lemma exec_simps:
  "exec m ref Get = (RCount (m ref + 1), m(ref := m ref + 1))"
  "exec m ref Put = (RBool (m ref - 1 = 0), m(ref := m ref - 1))"
  "exec m ref Cur = (RCount (m ref), m)"
  by (simp_all add: ref_get_def ref_put_def ref_cur_def atomic_add_fetch_def
      atomic_sub_fetch_def atomic_load_n_def lnot_def Let_def)

declare exec.simps [simp del]
declare exec_simps [simp]

text \<open>The compare-and-swap macros with the built-ins unfolded.\<close>

lemma cas_bool_unfold:
  "cas_bool e m ptr oldval newval
     = (m ptr = first_byte e oldval,
        if m ptr = first_byte e oldval then m(ptr := bool_byte (to_bool newval)) else m)"
  by (simp add: cas_bool_def cas_impl_def atomic_compare_exchange_n_def)

lemma sync_cas_bool_unfold:
  "sync_cas_bool m ptr oldval newval
     = (m ptr = bool_byte (to_bool oldval),
        if m ptr = bool_byte (to_bool oldval) then m(ptr := bool_byte (to_bool newval)) else m)"
  by (simp add: sync_cas_bool_def sync_bool_compare_and_swap_def)

lemma cas_ptr_unfold:
  "cas_ptr m ptr oldval newval
     = (m ptr = oldval, if m ptr = oldval then m(ptr := newval) else m)"
  "sync_cas_ptr m ptr oldval newval
     = (m ptr = oldval, if m ptr = oldval then m(ptr := newval) else m)"
  by (simp_all add: cas_ptr_def cas_impl_def atomic_compare_exchange_n_def
      sync_cas_ptr_def sync_bool_compare_and_swap_def)

lemma run_Cons:
  "run m ref (c # cs) = (c, exec m ref c) # run (snd (exec m ref c)) ref cs"
  by (simp add: split_def Let_def)

text \<open>The counter after a sequence of calls, from any starting value.\<close>

lemma after_counter:
  "after m ref cs ref = m ref + of_nat (count_list cs Get) - of_nat (count_list cs Put)"
proof (induction cs arbitrary: m)
  case Nil
  show ?case by simp
next
  case (Cons c cs)
  show ?case by (cases c) (simp_all add: Cons.IH)
qed

lemma after_gets: "after m ref (replicate n Get) ref = m ref + of_nat n"
  by (induction n arbitrary: m) simp_all

text \<open>A number of references below the number of counter values is 0 only as the word 0.\<close>

lemma of_nat_word_eq_0:
  "h < 2 ^ LENGTH('w) \<Longrightarrow> (of_nat h :: 'w::len word) = 0 \<longleftrightarrow> h = 0"
  by (auto simp: word_of_nat_eq_0_iff dest: nat_dvd_not_less)

lemma held_0: "held lim 0 cs \<Longrightarrow> cs = []"
proof (cases cs)
  case Nil
  then show ?thesis by simp
next
  case (Cons c cs')
  assume "held lim 0 cs"
  then show ?thesis using Cons by (cases c) simp_all
qed

lemma filter_only_last:
  "\<not> P e \<Longrightarrow> filter P es = [last es] \<Longrightarrow> filter P (e # es) = [last (e # es)]"
  by (cases es) simp_all

text \<open>
  The invariant of a disciplined trace: while \<open>h\<close> references are held the counter is
  \<open>h\<close>, so the only call that returns true, and the only one that leaves the counter at
  0, is the last one.
\<close>

lemma held_run:
  fixes m :: "('p, 'w::len refcount_t) mem"
  assumes "held (2 ^ LENGTH('w)) h cs" and "0 < h" and "h < 2 ^ LENGTH('w)"
    and "m ref = of_nat h" and "h + count_list cs Get = count_list cs Put"
  shows "filter is_last (run m ref cs) = [last (run m ref cs)]
       \<and> filter (reaches_zero ref) (run m ref cs) = [last (run m ref cs)]"
  using assms
proof (induction cs arbitrary: h m)
  case Nil
  then show ?case by simp
next
  case (Cons c cs)
  define e where "e = (c, exec m ref c)"
  define m' where "m' = snd (exec m ref c)"
  have run: "run m ref (c # cs) = e # run m' ref cs"
    by (simp only: run_Cons e_def m'_def)
  show ?case
  proof (cases "c = Put \<and> h = 1")
    case True
    then have "held (2 ^ LENGTH('w)) 0 cs" using Cons.prems(1) by simp
    then have "cs = []" by (rule held_0)
    then show ?thesis using True Cons.prems(4) by (simp add: run_Cons)
  next
    case False
    define h' where "h' = (case c of Get \<Rightarrow> h + 1 | Put \<Rightarrow> h - 1 | Cur \<Rightarrow> h)"
    have h': "0 < h'" "h' < 2 ^ LENGTH('w)" "held (2 ^ LENGTH('w)) h' cs"
      "h' + count_list cs Get = count_list cs Put"
      using False Cons.prems by (cases c; simp add: h'_def)+
    have m': "m' ref = of_nat h'"
      using Cons.prems(2,4) by (cases c) (simp_all add: m'_def h'_def)
    have nz: "m' ref \<noteq> 0"
      using h' m' of_nat_word_eq_0 [of h', where 'w = 'w] by simp
    have not_last: "\<not> is_last e"
      using nz by (cases c) (simp_all add: e_def m'_def)
    have not_zero: "\<not> reaches_zero ref e"
      using nz by (cases c) (simp_all add: e_def m'_def)
    have ih: "filter is_last (run m' ref cs) = [last (run m' ref cs)]
       \<and> filter (reaches_zero ref) (run m' ref cs) = [last (run m' ref cs)]"
      using h' m' by (intro Cons.IH [of h'])
    show ?thesis
      unfolding run using ih not_last not_zero by (blast intro: filter_only_last)
  qed
qed

section \<open>The single calls\<close>

text \<open>
  C1. For every counter value, \<^verbatim>\<open>ref_put\<close> subtracts exactly 1 from the counter
  (modulo \<open>2 ^ LENGTH('w)\<close>, as the counter is an unsigned machine integer) and returns
  true if and only if the value it leaves in the counter is 0. Every other location is as
  it was, and the call has no other outcome: it always returns this pair. This holds of
  the macro over \<^verbatim>\<open>__atomic_sub_fetch\<close> and of the macro over
  \<^verbatim>\<open>__sync_sub_and_fetch\<close>.
\<close>

theorem ref_put_decrements:
  "ref_put m ref = (m ref - 1 = 0, m(ref := m ref - 1))
   \<and> (fst (ref_put m ref) \<longleftrightarrow> snd (ref_put m ref) ref = 0)
   \<and> unat (snd (ref_put m ref) ref)
       = (if m ref = 0 then 2 ^ LENGTH('w) - 1 else unat (m ref) - 1)
   \<and> sync_ref_put m ref = (m ref - 1 = 0, m(ref := m ref - 1))
   \<and> (fst (sync_ref_put m ref) \<longleftrightarrow> snd (sync_ref_put m ref) ref = 0)
   \<and> unat (snd (sync_ref_put m ref) ref)
       = (if m ref = 0 then 2 ^ LENGTH('w) - 1 else unat (m ref) - 1)"
  for m :: "('p, 'w::len refcount_t) mem"
  by (simp add: ref_put_def atomic_sub_fetch_def sync_ref_put_def sync_sub_and_fetch_def
      lnot_def Let_def unat_minus_one unsigned_minus_1_eq_mask mask_eq_exp_minus_1)

text \<open>
  C3. For every counter value, \<^verbatim>\<open>ref_get\<close> adds exactly 1 to the counter (modulo
  \<open>2 ^ LENGTH('w)\<close>, as the counter is an unsigned machine integer), returns the value
  the counter has after the increment, and leaves every other location as it was. This
  holds of the macro over \<^verbatim>\<open>__atomic_add_fetch\<close> and of the macro over
  \<^verbatim>\<open>__sync_add_and_fetch\<close>.
\<close>

theorem ref_get_increments:
  "ref_get m ref = (m ref + 1, m(ref := m ref + 1))
   \<and> fst (ref_get m ref) = snd (ref_get m ref) ref
   \<and> unat (snd (ref_get m ref) ref) = (unat (m ref) + 1) mod 2 ^ LENGTH('w)
   \<and> sync_ref_get m ref = (m ref + 1, m(ref := m ref + 1))
   \<and> fst (sync_ref_get m ref) = snd (sync_ref_get m ref) ref
   \<and> unat (snd (sync_ref_get m ref) ref) = (unat (m ref) + 1) mod 2 ^ LENGTH('w)"
  for m :: "('p, 'w::len refcount_t) mem"
  by (simp add: ref_get_def atomic_add_fetch_def sync_ref_get_def sync_add_and_fetch_def
      Let_def unat_word_ariths)

text \<open>
  C7. For every counter value, \<^verbatim>\<open>ref_cur\<close> returns the value of the counter and
  leaves the whole memory, the counter included, as it was. This holds of the macro over
  \<^verbatim>\<open>__atomic_load_n\<close> and of the macro over \<^verbatim>\<open>__sync_fetch_and_add\<close>, which
  adds 0 to the counter and returns the value it had.
\<close>

theorem ref_cur_reads:
  "ref_cur m ref = (m ref, m)
   \<and> sync_ref_cur m ref = (m ref, m)"
  by (simp add: ref_cur_def atomic_load_n_def sync_ref_cur_def sync_fetch_and_add_def)

text \<open>
  What \<^verbatim>\<open>cas_ptr\<close> does, in both variants, and what the \<^verbatim>\<open>__sync\<close> variant of
  \<^verbatim>\<open>cas_bool\<close> does: they swap and return true exactly when the location holds the
  expected value (for \<^verbatim>\<open>cas_bool\<close>, the expected value as a \<^verbatim>\<open>bool\<close>), and
  otherwise return false and leave the memory as it was. The \<^verbatim>\<open>__atomic\<close> variant of
  \<^verbatim>\<open>cas_bool\<close> does the same when the expected value is an expression of type
  \<^verbatim>\<open>bool\<close>, and on a little-endian machine also when it is the integer 0 or 1.
\<close>

lemma cas_ptr_swaps_iff_expected:
  "cas_ptr m ptr oldval newval
     = (m ptr = oldval, if m ptr = oldval then m(ptr := newval) else m)
   \<and> sync_cas_ptr m ptr oldval newval
     = (m ptr = oldval, if m ptr = oldval then m(ptr := newval) else m)"
  by (simp add: cas_ptr_unfold)

lemma cas_bool_on_bool_expression:
  "cas_bool e m ptr (AsBool b) newval
     = (m ptr = bool_byte b,
        if m ptr = bool_byte b then m(ptr := bool_byte (to_bool newval)) else m)"
  by (simp add: cas_bool_unfold)

lemma cas_bool_on_zero_or_one:
  "cas_bool LITTLE_ENDIAN m ptr (AsInt 0) newval = sync_cas_bool m ptr (AsInt 0) newval"
  "cas_bool LITTLE_ENDIAN m ptr (AsInt 1) newval = sync_cas_bool m ptr (AsInt 1) newval"
  by (simp_all add: cas_bool_unfold sync_cas_bool_unfold bool_byte_def)

text \<open>
  C4. \<^verbatim>\<open>cas_bool\<close> is to write the new value and return true if and only if the
  location holds the expected value, and to leave the location alone when it returns
  false. The macro over \<^verbatim>\<open>__atomic_compare_exchange_n\<close> does not do so when the
  expected value is an integer expression: it compares the location with one byte of the
  integer. On a little-endian machine,
  \<^verbatim>\<open>cas_bool(&b, 256, TRUE)\<close> on a \<^verbatim>\<open>b\<close> that is false returns true and sets
  \<^verbatim>\<open>b\<close>, although 256 is not false, and \<^verbatim>\<open>cas_bool(&b, 2, FALSE)\<close> on a \<^verbatim>\<open>b\<close>
  that is true returns false and leaves \<^verbatim>\<open>b\<close> set, although 2 is true. On a
  big-endian machine the same happens for the integer 1:
  \<^verbatim>\<open>cas_bool(&b, 1, FALSE)\<close> on a \<^verbatim>\<open>b\<close> that is true returns false.
\<close>

theorem cas_bool_compares_one_byte_of_expected:
  "to_bool (AsInt 256) = True
   \<and> cas_bool LITTLE_ENDIAN (m(ptr := bool_byte False)) ptr (AsInt 256) (AsInt 1)
       = (True, m(ptr := bool_byte True))
   \<and> to_bool (AsInt 2) = True
   \<and> cas_bool LITTLE_ENDIAN (m(ptr := bool_byte True)) ptr (AsInt 2) (AsInt 0)
       = (False, m(ptr := bool_byte True))
   \<and> to_bool (AsInt 1) = True
   \<and> cas_bool BIG_ENDIAN (m(ptr := bool_byte True)) ptr (AsInt 1) (AsInt 0)
       = (False, m(ptr := bool_byte True))"
  by (simp add: cas_bool_unfold bool_byte_def)

text \<open>
  C9. The counter is an unsigned machine integer, so \<^verbatim>\<open>ref_put\<close> on a counter that is
  already 0 wraps it around to the largest value, \<open>2 ^ LENGTH('w) - 1\<close>, and returns
  false: the release of a reference nobody holds is not reported as the last one, and
  nothing else in the result tells it from a regular release.
\<close>

theorem ref_put_at_zero_wraps:
  "fst (ref_put (m(ref := 0)) ref) = False
   \<and> snd (ref_put (m(ref := 0)) ref) = m(ref := - 1)
   \<and> unat (snd (ref_put (m(ref := 0)) ref) ref) = 2 ^ LENGTH('w) - 1"
  for m :: "('p, 'w::len refcount_t) mem"
  by (simp add: ref_put_def atomic_sub_fetch_def lnot_def Let_def
      unsigned_minus_1_eq_mask mask_eq_exp_minus_1)

section \<open>The two families of built-ins\<close>

text \<open>
  Where the macros over the \<^verbatim>\<open>__atomic\<close> built-ins and the macros over the
  \<^verbatim>\<open>__sync\<close> built-ins are the same functions of the memory: the three reference
  counting macros and \<^verbatim>\<open>cas_ptr\<close>.
\<close>

lemma refcount_variants_agree:
  "sync_ref_get m ref = ref_get m ref
   \<and> sync_ref_put m ref = ref_put m ref
   \<and> sync_ref_cur m ref = ref_cur m ref
   \<and> sync_cas_ptr mp ptr oldval newval = cas_ptr mp ptr oldval newval"
  by (simp add: sync_ref_get_def ref_get_def sync_add_and_fetch_def atomic_add_fetch_def
      sync_ref_put_def ref_put_def sync_sub_and_fetch_def atomic_sub_fetch_def
      sync_ref_cur_def ref_cur_def sync_fetch_and_add_def atomic_load_n_def
      cas_ptr_unfold)

text \<open>
  C10. The two variants are to compute the same functions: the same return value and the
  same memory on every call. For \<^verbatim>\<open>cas_bool\<close> they do not. On a little-endian
  machine, \<^verbatim>\<open>cas_bool(&b, 2, FALSE)\<close> on a \<^verbatim>\<open>b\<close> that is true returns false and
  leaves \<^verbatim>\<open>b\<close> set in the \<^verbatim>\<open>__atomic\<close> variant, and returns true and clears
  \<^verbatim>\<open>b\<close> in the \<^verbatim>\<open>__sync\<close> variant; \<^verbatim>\<open>cas_bool(&b, 256, TRUE)\<close> on a \<^verbatim>\<open>b\<close>
  that is false returns true and sets \<^verbatim>\<open>b\<close> in the \<^verbatim>\<open>__atomic\<close> variant, and
  returns false and leaves \<^verbatim>\<open>b\<close> clear in the \<^verbatim>\<open>__sync\<close> variant.
\<close>

theorem cas_bool_variants_differ:
  "cas_bool LITTLE_ENDIAN (m(ptr := bool_byte True)) ptr (AsInt 2) (AsInt 0)
       = (False, m(ptr := bool_byte True))
   \<and> sync_cas_bool (m(ptr := bool_byte True)) ptr (AsInt 2) (AsInt 0)
       = (True, m(ptr := bool_byte False))
   \<and> cas_bool LITTLE_ENDIAN (m(ptr := bool_byte False)) ptr (AsInt 256) (AsInt 1)
       = (True, m(ptr := bool_byte True))
   \<and> sync_cas_bool (m(ptr := bool_byte False)) ptr (AsInt 256) (AsInt 1)
       = (False, m(ptr := bool_byte False))"
  by (simp add: cas_bool_unfold sync_cas_bool_unfold bool_byte_def)

section \<open>Traces of one thread\<close>

text \<open>
  C5. On a counter created with value 1, the calls \<^verbatim>\<open>ref_get\<close>, \<^verbatim>\<open>ref_put\<close>,
  \<^verbatim>\<open>ref_put\<close> go as follows: \<^verbatim>\<open>ref_get\<close> returns 2 and leaves the counter at 2; the
  first \<^verbatim>\<open>ref_put\<close> returns false and leaves it at 1; the second returns true and
  leaves it at 0. So exactly one call tells its caller to destroy the object, and it is
  the final release.
\<close>

theorem get_put_put_scenario:
  "run (new_counter m ref) ref [Get, Put, Put]
     = [(Get, RCount 2, m(ref := 2)), (Put, RBool False, m(ref := 1)),
        (Put, RBool True, m(ref := 0))]
   \<and> filter is_last (run (new_counter m ref) ref [Get, Put, Put])
     = [(Put, RBool True, m(ref := 0))]"
  by (simp add: new_counter_def)

text \<open>
  C6, as stated: at every point of a trace on a counter created with value 1, the number
  of \<^verbatim>\<open>ref_get\<close> calls so far minus the number of \<^verbatim>\<open>ref_put\<close> calls so far is the
  value of the counter. It fails after the first \<^verbatim>\<open>ref_get\<close>: one call minus none
  is 1, and the counter is 2. The creator's reference is in the counter and in neither
  number.
\<close>

theorem calls_difference_counterexample:
  "uint (after (new_counter fresh_mem 0) 0 [Get] 0 :: 32 word) = 2
   \<and> int (count_list [Get] Get) - int (count_list [Get] Put) = 1
   \<and> uint (after (new_counter fresh_mem 0) 0 [Get] 0 :: 32 word)
       \<noteq> int (count_list [Get] Get) - int (count_list [Get] Put)"
  by (simp add: new_counter_def)

text \<open>
  C6, amended: at every point of a trace on a counter created with value 1 (after any
  number \<open>k\<close> of its calls), the value of the counter is 1 plus the number of
  \<^verbatim>\<open>ref_get\<close> calls so far minus the number of \<^verbatim>\<open>ref_put\<close> calls so far, in the
  arithmetic of the counter type: as an integer, that number modulo \<open>2 ^ LENGTH('w)\<close>.
\<close>

theorem counter_is_one_plus_calls_difference:
  "after (new_counter m ref) ref (take k cs) ref
     = 1 + of_nat (count_list (take k cs) Get) - of_nat (count_list (take k cs) Put)
   \<and> uint (after (new_counter m ref) ref (take k cs) ref)
     = (1 + int (count_list (take k cs) Get) - int (count_list (take k cs) Put))
         mod 2 ^ LENGTH('w)"
  for m :: "('p, 'w::len refcount_t) mem"
proof -
  let ?g = "count_list (take k cs) Get" and ?p = "count_list (take k cs) Put"
  have counter: "after (new_counter m ref) ref (take k cs) ref = 1 + of_nat ?g - of_nat ?p"
    by (simp add: after_counter new_counter_def)
  have "(1 + of_nat ?g - of_nat ?p :: 'w word) = word_of_int (1 + int ?g - int ?p)"
    by simp
  then have "uint (1 + of_nat ?g - of_nat ?p :: 'w word)
      = (1 + int ?g - int ?p) mod 2 ^ LENGTH('w)"
    by (simp only: uint_word_of_int)
  then show ?thesis using counter by simp
qed

text \<open>
  C2, as stated: in every sequence of \<open>n\<close> \<^verbatim>\<open>ref_get\<close> and \<open>n + 1\<close> \<^verbatim>\<open>ref_put\<close>
  calls on a counter created with value 1, in which every \<^verbatim>\<open>ref_put\<close> is preceded by
  at least as many holders as releases, exactly one \<^verbatim>\<open>ref_put\<close> returns true and the
  counter reaches 0 exactly once. It fails for \<^verbatim>\<open>ref_put\<close>, \<^verbatim>\<open>ref_get\<close>, \<^verbatim>\<open>ref_put\<close>:
  the condition only constrains the releases, so it admits a \<^verbatim>\<open>ref_get\<close> on a counter
  that is already 0; both \<^verbatim>\<open>ref_put\<close> calls return true and the counter is 0 twice.
\<close>

theorem put_get_put_counterexample:
  "count_list [Put, Get, Put] Get = 1 \<and> count_list [Put, Get, Put] Put = 1 + 1
   \<and> puts_covered 1 0 [Put, Get, Put]
   \<and> length (filter is_last
        (run (new_counter (fresh_mem :: (nat, 32 refcount_t) mem) 0) 0 [Put, Get, Put])) = 2
   \<and> length (filter (reaches_zero 0)
        (run (new_counter (fresh_mem :: (nat, 32 refcount_t) mem) 0) 0 [Put, Get, Put])) = 2"
  by (simp add: new_counter_def)

text \<open>
  The claim also fails without any release before the end, once there are as many
  \<^verbatim>\<open>ref_get\<close> calls as the counter type has values: on a 32-bit counter created with
  value 1, \<open>2 ^ 32 - 1\<close> calls of \<^verbatim>\<open>ref_get\<close> leave the counter at 0.
\<close>

lemma gets_wrap_to_zero:
  "after (new_counter fresh_mem 0) 0 (replicate (2 ^ 32 - 1) Get) 0 = (0 :: 32 word)"
  by (simp only: after_gets new_counter_def fun_upd_same) simp

text \<open>
  C2, amended: take a sequence of \<open>n\<close> \<^verbatim>\<open>ref_get\<close> and \<open>n + 1\<close> \<^verbatim>\<open>ref_put\<close> calls
  (and any number of \<^verbatim>\<open>ref_cur\<close> calls) on a counter created with value 1, in which
  every call, \<^verbatim>\<open>ref_get\<close> as well as \<^verbatim>\<open>ref_put\<close>, is made while at least one
  reference is held, and in which the number of references held stays below
  \<open>2 ^ LENGTH('w)\<close>. Then exactly one call is a \<^verbatim>\<open>ref_put\<close> that returns true,
  exactly one call leaves the counter at 0, and both are the last call of the sequence.
\<close>

theorem exactly_one_last_release:
  fixes m :: "('p, 'w::len refcount_t) mem"
  assumes "count_list cs Get = n" and "count_list cs Put = n + 1"
    and "held (2 ^ LENGTH('w)) 1 cs"
  shows "length (filter is_last (run (new_counter m ref) ref cs)) = 1
     \<and> length (filter (reaches_zero ref) (run (new_counter m ref) ref cs)) = 1
     \<and> filter is_last (run (new_counter m ref) ref cs)
         = [last (run (new_counter m ref) ref cs)]
     \<and> filter (reaches_zero ref) (run (new_counter m ref) ref cs)
         = [last (run (new_counter m ref) ref cs)]"
proof -
  have "(1::nat) < 2 ^ LENGTH('w)"
    using unsigned_less [of "1 :: 'w word", where 'a = nat] by simp
  then have "filter is_last (run (new_counter m ref) ref cs)
         = [last (run (new_counter m ref) ref cs)]
     \<and> filter (reaches_zero ref) (run (new_counter m ref) ref cs)
         = [last (run (new_counter m ref) ref cs)]"
    using assms by (intro held_run [of 1]) (simp_all add: new_counter_def)
  then show ?thesis by simp
qed

text \<open>
  The amended C2 on the sequence \<^verbatim>\<open>ref_get\<close>, \<^verbatim>\<open>ref_put\<close>, \<^verbatim>\<open>ref_put\<close> of a 32-bit
  counter, with \<open>n = 1\<close>.
\<close>

theorem exactly_one_last_release_witness:
  "count_list [Get, Put, Put] Get = 1 \<and> count_list [Get, Put, Put] Put = 1 + 1
   \<and> held (2 ^ LENGTH(32)) 1 [Get, Put, Put]
   \<and> length (filter is_last
        (run (new_counter (fresh_mem :: (nat, 32 refcount_t) mem) 0) 0 [Get, Put, Put])) = 1
   \<and> length (filter (reaches_zero 0)
        (run (new_counter (fresh_mem :: (nat, 32 refcount_t) mem) 0) 0 [Get, Put, Put])) = 1
   \<and> last (run (new_counter (fresh_mem :: (nat, 32 refcount_t) mem) 0) 0 [Get, Put, Put])
       = (Put, RBool True, fresh_mem(0 := 0))"
proof -
  have a: "count_list [Get, Put, Put] Get = 1" by simp
  have b: "count_list [Get, Put, Put] Put = 1 + 1" by simp
  have c: "held (2 ^ LENGTH(32)) 1 [Get, Put, Put]" by simp
  show ?thesis
    using a b c exactly_one_last_release [OF a b c, of "fresh_mem :: (nat, 32 refcount_t) mem" 0]
    by (simp add: new_counter_def)
qed

end
